theory Spec2Isabelle
  imports Complex_Main
begin

section \<open>JavaScript numbers\<close>

text \<open>
  A JavaScript number is modelled in exact arithmetic: a finite number is a real, and the
  three non-finite values of IEEE 754 are constructors of their own, so that a division
  by zero is a value of the model and not HOL's \<open>x / 0 = 0\<close>. Overflow of finite
  values and the sign of zero are not modelled (zero counts as \<open>+0\<close>), and the rounding
  of the doubles only where it decides a whole number, the index of a list.
\<close>

datatype jsnum = Num real | PosInfinity | NegInfinity | NaN

text \<open>The operators \<^verbatim>\<open>/\<close>, \<^verbatim>\<open>*\<close>, \<^verbatim>\<open>+\<close>, \<^verbatim>\<open>-\<close> of the language.\<close>

fun js_div :: "jsnum \<Rightarrow> jsnum \<Rightarrow> jsnum" where
  "js_div NaN y = NaN"
| "js_div x NaN = NaN"
| "js_div (Num a) (Num b) =
     (if b = 0 then (if a = 0 then NaN else if 0 < a then PosInfinity else NegInfinity)
      else Num (a / b))"
| "js_div (Num a) PosInfinity = Num 0"
| "js_div (Num a) NegInfinity = Num 0"
| "js_div PosInfinity (Num b) = (if b < 0 then NegInfinity else PosInfinity)"
| "js_div NegInfinity (Num b) = (if b < 0 then PosInfinity else NegInfinity)"
| "js_div PosInfinity PosInfinity = NaN"
| "js_div PosInfinity NegInfinity = NaN"
| "js_div NegInfinity PosInfinity = NaN"
| "js_div NegInfinity NegInfinity = NaN"

fun js_mul :: "jsnum \<Rightarrow> jsnum \<Rightarrow> jsnum" where
  "js_mul NaN y = NaN"
| "js_mul x NaN = NaN"
| "js_mul (Num a) (Num b) = Num (a * b)"
| "js_mul (Num a) PosInfinity = (if a = 0 then NaN else if 0 < a then PosInfinity else NegInfinity)"
| "js_mul (Num a) NegInfinity = (if a = 0 then NaN else if 0 < a then NegInfinity else PosInfinity)"
| "js_mul PosInfinity (Num b) = (if b = 0 then NaN else if 0 < b then PosInfinity else NegInfinity)"
| "js_mul NegInfinity (Num b) = (if b = 0 then NaN else if 0 < b then NegInfinity else PosInfinity)"
| "js_mul PosInfinity PosInfinity = PosInfinity"
| "js_mul PosInfinity NegInfinity = NegInfinity"
| "js_mul NegInfinity PosInfinity = NegInfinity"
| "js_mul NegInfinity NegInfinity = PosInfinity"

fun js_add :: "jsnum \<Rightarrow> jsnum \<Rightarrow> jsnum" where
  "js_add NaN y = NaN"
| "js_add x NaN = NaN"
| "js_add (Num a) (Num b) = Num (a + b)"
| "js_add (Num a) PosInfinity = PosInfinity"
| "js_add (Num a) NegInfinity = NegInfinity"
| "js_add PosInfinity (Num b) = PosInfinity"
| "js_add NegInfinity (Num b) = NegInfinity"
| "js_add PosInfinity PosInfinity = PosInfinity"
| "js_add PosInfinity NegInfinity = NaN"
| "js_add NegInfinity PosInfinity = NaN"
| "js_add NegInfinity NegInfinity = NegInfinity"

fun js_neg :: "jsnum \<Rightarrow> jsnum" where
  "js_neg NaN = NaN"
| "js_neg (Num a) = Num (- a)"
| "js_neg PosInfinity = NegInfinity"
| "js_neg NegInfinity = PosInfinity"

definition js_sub :: "jsnum \<Rightarrow> jsnum \<Rightarrow> jsnum" where
  "js_sub x y = js_add x (js_neg y)"

text \<open>The comparison \<^verbatim>\<open><\<close>: false as soon as one side is NaN.\<close>

fun js_lt :: "jsnum \<Rightarrow> jsnum \<Rightarrow> bool" where
  "js_lt NaN y = False"
| "js_lt x NaN = False"
| "js_lt (Num a) (Num b) = (a < b)"
| "js_lt (Num a) PosInfinity = True"
| "js_lt (Num a) NegInfinity = False"
| "js_lt PosInfinity y = False"
| "js_lt NegInfinity NegInfinity = False"
| "js_lt NegInfinity y = True"

definition js_gt :: "jsnum \<Rightarrow> jsnum \<Rightarrow> bool" where
  "js_gt x y = js_lt y x"

text \<open>Strict equality \<^verbatim>\<open>===\<close> on numbers: NaN is not equal to itself.\<close>

definition strict_equals :: "jsnum \<Rightarrow> jsnum \<Rightarrow> bool" where
  "strict_equals x y = (x = y \<and> x \<noteq> NaN)"

definition js_ge :: "jsnum \<Rightarrow> jsnum \<Rightarrow> bool" where
  "js_ge x y = (js_lt y x \<or> strict_equals x y)"


section \<open>Configuration: OhmsLawConstants\<close>

text \<open>
  \<^verbatim>\<open>RangeWithValue\<close> of the DOT library: a closed range with a default value.
  \<^verbatim>\<open>Range.contains\<close> is \<^verbatim>\<open>min <= value && value <= max\<close>.
\<close>

record rangeWithValue =
  rmin :: real
  rmax :: real
  defaultValue :: real

definition getDefaultValue :: "rangeWithValue \<Rightarrow> real" where
  "getDefaultValue rng = defaultValue rng"

definition contains :: "rangeWithValue \<Rightarrow> real \<Rightarrow> bool" where
  "contains rng v = (rmin rng \<le> v \<and> v \<le> rmax rng)"

text \<open>
  The module \<^verbatim>\<open>OhmsLawConstants\<close> is required by every source file but its values are not
  part of the sources at hand: the constants the code reads are the fields of a record
  that every definition takes as a parameter. They are finite numbers.
\<close>

record constants =
  VOLTAGE_RANGE :: rangeWithValue
  RESISTANCE_RANGE :: rangeWithValue
  WIRE_WIDTH :: real
  WIRE_HEIGHT :: real
  RELATIVE_SIZE_STRINGS :: "string list"

section \<open>The model: OhmsLawModel\<close>

text \<open>
  \<^verbatim>\<open>Property\<close> of the AXON library holds a value, the value it was created with, and the
  listeners of its change emitter in the order they were added. The value is any number
  of the language, NaN and the infinities too.

  A listener that the model does not own (a view, a test) is an observer known by a
  number; what it does when called is to be called, so a call is an entry of the log
  \<open>calls\<close> of the model: the observer, the property that called it, the new value, the old
  value (\<open>None\<close> for the \<^verbatim>\<open>null\<close> that \<^verbatim>\<open>link\<close> passes), and what the observer would read
  from the model at that moment: the voltage and the resistance then held.
\<close>

record 'a property =
  pvalue :: 'a
  initialValue :: 'a
  listeners :: "nat list"

datatype property_name = Voltage | Resistance | Current

record call =
  observer :: nat
  emitter :: property_name
  newValue :: jsnum
  oldValue :: "jsnum option"
  voltageHeld :: jsnum
  resistanceHeld :: jsnum

record model =
  voltageProperty :: "jsnum property"
  resistanceProperty :: "jsnum property"
  currentProperty :: "jsnum property"
  calls :: "call list"

text \<open>The derivation passed to \<^verbatim>\<open>DerivedProperty\<close>: \<^verbatim>\<open>1000 * voltage / resistance\<close>.\<close>

definition derivation :: "jsnum \<Rightarrow> jsnum \<Rightarrow> jsnum" where
  "derivation voltage resistance = js_div (js_mul (Num 1000) voltage) resistance"

text \<open>
  \<^verbatim>\<open>new NumberProperty( value )\<close> with no options: no range is given to the property, so
  it holds any number. \<^verbatim>\<open>new DerivedProperty( dependencies, derivation )\<close> computes its
  first value from the dependencies' values and adds a listener of its own to each
  dependency, before any other listener can be added.
\<close>

definition NumberProperty :: "jsnum \<Rightarrow> jsnum property" where
  "NumberProperty v = \<lparr>pvalue = v, initialValue = v, listeners = []\<rparr>"

definition OhmsLawModel :: "constants \<Rightarrow> model" where
  "OhmsLawModel c =
     (let v = NumberProperty (Num (getDefaultValue (VOLTAGE_RANGE c)));
          r = NumberProperty (Num (getDefaultValue (RESISTANCE_RANGE c)));
          i = derivation (pvalue v) (pvalue r)
      in \<lparr>voltageProperty = v, resistanceProperty = r,
          currentProperty = \<lparr>pvalue = i, initialValue = i, listeners = []\<rparr>,
          calls = []\<rparr>)"

text \<open>
  \<^verbatim>\<open>Emitter.emit2( newValue, oldValue )\<close> of the property \<open>p\<close>, in the state \<open>m\<close>: every
  listener is called, in order.
\<close>

definition emit2 :: "model \<Rightarrow> property_name \<Rightarrow> nat list \<Rightarrow> jsnum \<Rightarrow> jsnum \<Rightarrow> call list" where
  "emit2 m p ls new old =
     map (\<lambda>l. \<lparr>observer = l, emitter = p, newValue = new, oldValue = Some old,
               voltageHeld = pvalue (voltageProperty m),
               resistanceHeld = pvalue (resistanceProperty m)\<rparr>) ls"

text \<open>
  The listener that \<^verbatim>\<open>DerivedProperty\<close> adds to each dependency:
  \<^verbatim>\<open>Property.prototype.set.call( self, derivation( values of the dependencies ) )\<close>.
  \<^verbatim>\<open>Property.set\<close> stores the value and notifies the listeners only when the value is
  not \<^verbatim>\<open>===\<close> to the one it holds.
\<close>

definition derivedListener :: "model \<Rightarrow> model" where
  "derivedListener m =
     (let new = derivation (pvalue (voltageProperty m)) (pvalue (resistanceProperty m));
          old = pvalue (currentProperty m)
      in if strict_equals new old then m
         else m\<lparr>currentProperty := (currentProperty m)\<lparr>pvalue := new\<rparr>,
                calls := calls m @ emit2 m Current (listeners (currentProperty m)) new old\<rparr>)"

text \<open>
  \<^verbatim>\<open>model.voltageProperty.set( value )\<close>. When the value is not \<^verbatim>\<open>===\<close> to the one held, it
  is stored and the listeners run in the order they were added: the derived property's
  first (it updates the current and calls the observers of the current), then the
  observers of the voltage.
\<close>

definition voltageProperty_set :: "jsnum \<Rightarrow> model \<Rightarrow> model" where
  "voltageProperty_set v m =
     (let old = pvalue (voltageProperty m)
      in if strict_equals v old then m
         else let m1 = derivedListener (m\<lparr>voltageProperty := (voltageProperty m)\<lparr>pvalue := v\<rparr>\<rparr>)
              in m1\<lparr>calls := calls m1 @ emit2 m1 Voltage (listeners (voltageProperty m1)) v old\<rparr>)"

definition resistanceProperty_set :: "jsnum \<Rightarrow> model \<Rightarrow> model" where
  "resistanceProperty_set r m =
     (let old = pvalue (resistanceProperty m)
      in if strict_equals r old then m
         else let m1 = derivedListener (m\<lparr>resistanceProperty := (resistanceProperty m)\<lparr>pvalue := r\<rparr>\<rparr>)
              in m1\<lparr>calls := calls m1 @ emit2 m1 Resistance (listeners (resistanceProperty m1)) r old\<rparr>)"

text \<open>\<^verbatim>\<open>Property.reset\<close> is \<^verbatim>\<open>this.set( this._initialValue )\<close>.\<close>

definition voltageProperty_reset :: "model \<Rightarrow> model" where
  "voltageProperty_reset m = voltageProperty_set (initialValue (voltageProperty m)) m"

definition resistanceProperty_reset :: "model \<Rightarrow> model" where
  "resistanceProperty_reset m = resistanceProperty_set (initialValue (resistanceProperty m)) m"

text \<open>
  \<^verbatim>\<open>OhmsLawModel.reset\<close>. Its third statement reads \<^verbatim>\<open>this.soundActiveProperty\<close>, a field the
  constructor never assigns: the value is \<^verbatim>\<open>undefined\<close> and calling \<^verbatim>\<open>.reset()\<close> on it
  throws a TypeError, after the two resets before it have taken effect. The result is
  the outcome of the call together with the state it leaves.
\<close>

datatype error = TypeError | AssertionError

datatype outcome = Returned | Threw error

definition reset :: "model \<Rightarrow> outcome \<times> model" where
  "reset m =
     (let m1 = voltageProperty_reset m;
          m2 = resistanceProperty_reset m1
      in (Threw TypeError, m2))"

text \<open>Two calls one after the other, as statements: a throw of the first skips the second.\<close>

definition reset_twice :: "model \<Rightarrow> outcome \<times> model" where
  "reset_twice m =
     (case reset m of
        (Threw e, m1) \<Rightarrow> (Threw e, m1)
      | (Returned, m1) \<Rightarrow> reset m1)"

text \<open>The reads: \<^verbatim>\<open>property.get()\<close>.\<close>

definition getVoltage :: "model \<Rightarrow> jsnum" where
  "getVoltage m = pvalue (voltageProperty m)"

definition getResistance :: "model \<Rightarrow> jsnum" where
  "getResistance m = pvalue (resistanceProperty m)"

definition getCurrent :: "model \<Rightarrow> jsnum" where
  "getCurrent m = pvalue (currentProperty m)"

text \<open>
  Subscribing to the current. \<^verbatim>\<open>lazyLink\<close> adds the listener; \<^verbatim>\<open>link\<close> adds it unless it
  is there already and calls it at once with the value held and \<^verbatim>\<open>null\<close>.
\<close>

definition currentProperty_lazyLink :: "nat \<Rightarrow> model \<Rightarrow> model" where
  "currentProperty_lazyLink f m =
     m\<lparr>currentProperty := (currentProperty m)\<lparr>listeners := listeners (currentProperty m) @ [f]\<rparr>\<rparr>"

definition currentProperty_link :: "nat \<Rightarrow> model \<Rightarrow> model" where
  "currentProperty_link f m =
     (if f \<in> set (listeners (currentProperty m)) then m
      else (currentProperty_lazyLink f m)
             \<lparr>calls := calls m @
                [\<lparr>observer = f, emitter = Current, newValue = pvalue (currentProperty m),
                  oldValue = None, voltageHeld = pvalue (voltageProperty m),
                  resistanceHeld = pvalue (resistanceProperty m)\<rparr>]\<rparr>)"

definition voltageProperty_lazyLink :: "nat \<Rightarrow> model \<Rightarrow> model" where
  "voltageProperty_lazyLink f m =
     m\<lparr>voltageProperty := (voltageProperty m)\<lparr>listeners := listeners (voltageProperty m) @ [f]\<rparr>\<rparr>"

definition resistanceProperty_lazyLink :: "nat \<Rightarrow> model \<Rightarrow> model" where
  "resistanceProperty_lazyLink f m =
     m\<lparr>resistanceProperty := (resistanceProperty m)\<lparr>listeners := listeners (resistanceProperty m) @ [f]\<rparr>\<rparr>"

text \<open>
  The states of a model: the one the constructor builds, and every state an operation
  leaves. A \<^verbatim>\<open>set\<close> may carry any number: the model holds no range.
\<close>

inductive reachable :: "constants \<Rightarrow> model \<Rightarrow> bool" for c :: constants where
  r_new: "reachable c (OhmsLawModel c)"
| r_voltage: "reachable c m \<Longrightarrow> reachable c (voltageProperty_set v m)"
| r_resistance: "reachable c m \<Longrightarrow> reachable c (resistanceProperty_set r m)"
| r_reset: "reachable c m \<Longrightarrow> reachable c (snd (reset m))"
| r_lazyLink: "reachable c m \<Longrightarrow> reachable c (currentProperty_lazyLink f m)"
| r_link: "reachable c m \<Longrightarrow> reachable c (currentProperty_link f m)"
| r_lazyLink_voltage: "reachable c m \<Longrightarrow> reachable c (voltageProperty_lazyLink f m)"
| r_lazyLink_resistance: "reachable c m \<Longrightarrow> reachable c (resistanceProperty_lazyLink f m)"

text \<open>The invariant: the current held is the one derived from the voltage and resistance held.\<close>

definition current_derived :: "model \<Rightarrow> bool" where
  "current_derived m =
     (pvalue (currentProperty m) = derivation (pvalue (voltageProperty m)) (pvalue (resistanceProperty m)))"



text \<open>The voltage, the resistance and the current of a state.\<close>

definition values_of :: "model \<Rightarrow> jsnum \<times> jsnum \<times> jsnum" where
  "values_of m = (getVoltage m, getResistance m, getCurrent m)"

text \<open>
  The constants of the examples: 0.1 to 9.9 volts, 4.5 at first; 10 to 1000 ohms, 500 at
  first; and for the view a wire of 232 by 180 and seven descriptors, "Tiny" to "Huge".
\<close>

definition example_constants :: constants where
  "example_constants =
     \<lparr>VOLTAGE_RANGE = \<lparr>rmin = 1 / 10, rmax = 99 / 10, defaultValue = 9 / 2\<rparr>,
      RESISTANCE_RANGE = \<lparr>rmin = 10, rmax = 1000, defaultValue = 500\<rparr>,
      WIRE_WIDTH = 232, WIRE_HEIGHT = 180,
      RELATIVE_SIZE_STRINGS = [''Tiny'', ''Very small'', ''Small'', ''Medium size'',
                               ''Large'', ''Very large'', ''Huge'']\<rparr>"

section \<open>The view: DOT utilities\<close>

text \<open>
  \<^verbatim>\<open>Math.abs\<close>, \<^verbatim>\<open>Math.round\<close> (the nearest integer, a tie going up), \<^verbatim>\<open>Math.sqrt\<close>,
  \<^verbatim>\<open>Math.max\<close> and \<^verbatim>\<open>Math.min\<close> (NaN as soon as one argument is NaN).
\<close>

fun Math_abs :: "jsnum \<Rightarrow> jsnum" where
  "Math_abs NaN = NaN"
| "Math_abs (Num a) = Num \<bar>a\<bar>"
| "Math_abs PosInfinity = PosInfinity"
| "Math_abs NegInfinity = PosInfinity"

fun Math_round :: "jsnum \<Rightarrow> jsnum" where
  "Math_round (Num a) = Num (of_int \<lfloor>a + 1 / 2\<rfloor>)"
| "Math_round x = x"

fun Math_sqrt :: "jsnum \<Rightarrow> jsnum" where
  "Math_sqrt (Num a) = (if a < 0 then NaN else Num (sqrt a))"
| "Math_sqrt PosInfinity = PosInfinity"
| "Math_sqrt x = NaN"

definition Math_max :: "jsnum \<Rightarrow> jsnum \<Rightarrow> jsnum" where
  "Math_max x y = (if x = NaN \<or> y = NaN then NaN else if js_lt x y then y else x)"

definition Math_min :: "jsnum \<Rightarrow> jsnum \<Rightarrow> jsnum" where
  "Math_min x y = (if x = NaN \<or> y = NaN then NaN else if js_lt y x then y else x)"

text \<open>
  \<^verbatim>\<open>Util.roundSymmetric( value )\<close> is
  \<^verbatim>\<open>( ( value < 0 ) ? -1 : 1 ) * Math.round( Math.abs( value ) )\<close>.
\<close>

definition roundSymmetric :: "jsnum \<Rightarrow> jsnum" where
  "roundSymmetric v = js_mul (if js_lt v (Num 0) then Num (- 1) else Num 1) (Math_round (Math_abs v))"

text \<open>\<^verbatim>\<open>Util.linear( a1, b1, a2, b2, a3 )\<close> is \<^verbatim>\<open>( b2 - a2 ) / ( b1 - a1 ) * ( a3 - a1 ) + a2\<close>.\<close>

definition linear :: "jsnum \<Rightarrow> jsnum \<Rightarrow> jsnum \<Rightarrow> jsnum \<Rightarrow> jsnum \<Rightarrow> jsnum" where
  "linear a1 b1 a2 b2 a3 = js_add (js_mul (js_div (js_sub b2 a2) (js_sub b1 a1)) (js_sub a3 a1)) a2"

text \<open>\<^verbatim>\<open>Util.clamp( value, min, max )\<close>: two comparisons, so NaN passes through.\<close>

definition clamp :: "jsnum \<Rightarrow> jsnum \<Rightarrow> jsnum \<Rightarrow> jsnum" where
  "clamp v lo hi = (if js_lt v lo then lo else if js_gt v hi then hi else v)"

text \<open>
  \<^verbatim>\<open>new LinearFunction( a1, b1, a2, b2, clamp )\<close> is the function that maps \<open>a3\<close> to
  \<^verbatim>\<open>Util.linear( a1, b1, a2, b2, a3 )\<close>, clamped between the smaller and the larger of
  \<open>a2\<close> and \<open>b2\<close> when asked to.
\<close>

definition LinearFunction :: "jsnum \<Rightarrow> jsnum \<Rightarrow> jsnum \<Rightarrow> jsnum \<Rightarrow> bool \<Rightarrow> jsnum \<Rightarrow> jsnum" where
  "LinearFunction a1 b1 a2 b2 clamped a3 =
     (let b3 = linear a1 b1 a2 b2 a3
      in if clamped then clamp b3 (Math_min a2 b2) (Math_max a2 b2) else b3)"

section \<open>The view: WireBox.getArrowSizeDescription\<close>

text \<open>\<^verbatim>\<open>String.toLowerCase\<close>, on the letters of ASCII.\<close>

definition char_toLowerCase :: "char \<Rightarrow> char" where
  "char_toLowerCase ch =
     (let n = (of_char ch :: nat) in if 65 \<le> n \<and> n \<le> 90 then char_of (n + 32) else ch)"

definition toLowerCase :: "string \<Rightarrow> string" where
  "toLowerCase s = map char_toLowerCase s"

text \<open>
  Reading \<^verbatim>\<open>array[ index ]\<close>: an element when the index is a whole number from 0 to the
  length less one, otherwise \<^verbatim>\<open>undefined\<close> (\<open>None\<close>).
\<close>

definition array_get :: "'a list \<Rightarrow> jsnum \<Rightarrow> 'a option" where
  "array_get xs index =
     (case index of
        Num i \<Rightarrow> if of_int \<lfloor>i\<rfloor> = i \<and> 0 \<le> i \<and> i < real (length xs) then Some (xs ! nat \<lfloor>i\<rfloor>) else None
      | PosInfinity \<Rightarrow> None | NegInfinity \<Rightarrow> None | NaN \<Rightarrow> None)"

text \<open>
  The doubles compute the linear map with a rounding error: the value that
  \<^verbatim>\<open>Util.linear\<close> returns, when it is finite, is the exact one plus an error of a few
  units in the last place. The error decides which way a value at a half is rounded, so
  the index takes it as a parameter; whatever it is, it is below one half.
\<close>

typedef rounding = "{e :: real. \<bar>e\<bar> < 1 / 2}"
  morphisms rounding_error Rounding
  by (rule exI [of _ 0]) simp

text \<open>
  The index of \<^verbatim>\<open>getArrowSizeDescription\<close>, from the height of the bottom left arrow and
  the least height \<^verbatim>\<open>this.minArrowHeight\<close> that the constructor measured (both are bounds
  of a node of the scene: finite numbers). \<^verbatim>\<open>HEIGHT\<close> is \<^verbatim>\<open>OhmsLawConstants.WIRE_HEIGHT\<close>.
\<close>

definition maxArrowHeightThreshold :: "constants \<Rightarrow> jsnum" where
  "maxArrowHeightThreshold c =
     (let maxArrowHeightThresholdCoefficient = Num 2
      in js_mul (Num (WIRE_HEIGHT c)) maxArrowHeightThresholdCoefficient)"

text \<open>\<^verbatim>\<open>OhmsLawConstants.RELATIVE_SIZE_STRINGS.length - 1\<close>, which the function reads twice.\<close>

definition lastIndex :: "constants \<Rightarrow> jsnum" where
  "lastIndex c = js_sub (Num (real (length (RELATIVE_SIZE_STRINGS c)))) (Num 1)"

definition arrowSizeIndex :: "rounding \<Rightarrow> constants \<Rightarrow> real \<Rightarrow> real \<Rightarrow> jsnum" where
  "arrowSizeIndex e c minArrowHeight height =
     (let mapped = js_add (linear (Num minArrowHeight) (maxArrowHeightThreshold c)
                                  (Num 0) (lastIndex c) (Num height))
                          (Num (rounding_error e));
          index = roundSymmetric mapped
      in if js_gt (Num height) (maxArrowHeightThreshold c) then lastIndex c else index)"

text \<open>
  The assertion runs only when assertions are enabled (\<^verbatim>\<open>assert && assert( ... )\<close>) and
  throws when its condition fails; \<^verbatim>\<open>.toLowerCase()\<close> on \<^verbatim>\<open>undefined\<close> throws a TypeError.
\<close>

definition getArrowSizeDescription ::
    "bool \<Rightarrow> rounding \<Rightarrow> constants \<Rightarrow> real \<Rightarrow> real \<Rightarrow> error + string" where
  "getArrowSizeDescription assertions e c minArrowHeight height =
     (let index = arrowSizeIndex e c minArrowHeight height
      in if assertions \<and>
            \<not> (js_ge index (Num 0) \<and> js_lt index (Num (real (length (RELATIVE_SIZE_STRINGS c)))))
         then Inl AssertionError
         else (case array_get (RELATIVE_SIZE_STRINGS c) index of
                 None \<Rightarrow> Inl TypeError
               | Some s \<Rightarrow> Inr (toLowerCase s)))"

text \<open>
  The specification's words for the linear map: the height is mapped linearly from
  [minArrowHeight, threshold] onto [0, N - 1].
\<close>

definition linear_map :: "real \<Rightarrow> real \<Rightarrow> real \<Rightarrow> real \<Rightarrow> real \<Rightarrow> real" where
  "linear_map lo hi a b x = a + (b - a) * ((x - lo) / (hi - lo))"

definition mapped_height :: "constants \<Rightarrow> real \<Rightarrow> real \<Rightarrow> real" where
  "mapped_height c minArrowHeight height =
     linear_map minArrowHeight (2 * WIRE_HEIGHT c) 0
       (real (length (RELATIVE_SIZE_STRINGS c)) - 1) height"

section \<open>The view: ResistorNode\<close>

definition RESISTOR_WIDTH :: "constants \<Rightarrow> jsnum" where
  "RESISTOR_WIDTH c = js_div (Num (WIRE_WIDTH c)) (Num (2123 / 1000))"

definition RESISTOR_HEIGHT :: "constants \<Rightarrow> jsnum" where
  "RESISTOR_HEIGHT c = js_div (Num (WIRE_HEIGHT c)) (Num (275 / 100))"

definition AREA_PER_DOT :: jsnum where
  "AREA_PER_DOT = Num 40"

definition DOT_GRID_ROWS :: "constants \<Rightarrow> jsnum" where
  "DOT_GRID_ROWS c = roundSymmetric (js_div (RESISTOR_HEIGHT c) (Math_sqrt AREA_PER_DOT))"

definition DOT_GRID_COLUMNS :: "constants \<Rightarrow> jsnum" where
  "DOT_GRID_COLUMNS c = roundSymmetric (js_div (RESISTOR_WIDTH c) (Math_sqrt AREA_PER_DOT))"

definition MAX_DOTS :: "constants \<Rightarrow> jsnum" where
  "MAX_DOTS c = js_mul (DOT_GRID_COLUMNS c) (DOT_GRID_ROWS c)"

definition RESISTANCE_TO_NUM_DOTS :: "constants \<Rightarrow> jsnum \<Rightarrow> jsnum" where
  "RESISTANCE_TO_NUM_DOTS c =
     LinearFunction (Num (rmin (RESISTANCE_RANGE c))) (Num (rmax (RESISTANCE_RANGE c)))
       (js_mul (MAX_DOTS c) (Num (5 / 100))) (MAX_DOTS c) True"

text \<open>
  The counter of \<^verbatim>\<open>for ( var i = 1; i < bound; i++ )\<close> takes the values 1, 2, ... below the
  bound, none when the comparison fails at once, and the loop does not end (\<open>None\<close>) when
  the bound is \<^verbatim>\<open>Infinity\<close>.
\<close>

definition loop_from_1 :: "jsnum \<Rightarrow> nat list option" where
  "loop_from_1 bound =
     (case bound of
        Num b \<Rightarrow> Some [1 ..< nat \<lceil>b\<rceil>]
      | PosInfinity \<Rightarrow> None
      | NegInfinity \<Rightarrow> Some []
      | NaN \<Rightarrow> Some [])"

text \<open>
  The dots that the constructor adds to \<^verbatim>\<open>dotsNode\<close>, one for each pair of the two nested
  loops, each named by its place in the grid. The inner loop runs once for each value of
  the outer counter.
\<close>

definition createDots :: "constants \<Rightarrow> (nat \<times> nat) list option" where
  "createDots c =
     (case loop_from_1 (DOT_GRID_COLUMNS c) of
        None \<Rightarrow> None
      | Some is \<Rightarrow>
          if is = [] then Some []
          else (case loop_from_1 (DOT_GRID_ROWS c) of
                  None \<Rightarrow> None
                | Some js \<Rightarrow> Some (concat (map (\<lambda>i. map (\<lambda>j. (i, j)) js) is))))"

text \<open>
  The listener on the resistance: the dot at \<open>index\<close> of the children is visible when
  \<^verbatim>\<open>index < numDotsToShow\<close>. The shuffle before it reorders the children and keeps
  their number, so the visibility by index is the same for any order.
\<close>

definition dotsVisible :: "constants \<Rightarrow> real \<Rightarrow> bool list option" where
  "dotsVisible c resistance =
     (case createDots c of
        None \<Rightarrow> None
      | Some children \<Rightarrow>
          (let numDotsToShow = RESISTANCE_TO_NUM_DOTS c (Num resistance)
           in Some (map (\<lambda>index. js_lt (Num (real index)) numDotsToShow) [0 ..< length children])))"

definition numVisibleDots :: "constants \<Rightarrow> real \<Rightarrow> nat option" where
  "numVisibleDots c resistance = map_option (\<lambda>vs. length (filter id vs)) (dotsVisible c resistance)"

text \<open>The specification's words: the linear map clamped to the interval it maps onto.\<close>

definition clamped_linear_map :: "real \<Rightarrow> real \<Rightarrow> real \<Rightarrow> real \<Rightarrow> real \<Rightarrow> real" where
  "clamped_linear_map lo hi a b x = max (min a b) (min (max a b) (linear_map lo hi a b x))"

section \<open>Properties of the model\<close>

lemma derivation_Num: "r \<noteq> 0 \<Longrightarrow> derivation (Num v) (Num r) = Num (1000 * v / r)"
  by (simp add: derivation_def)

lemma derivedListener_derived: "current_derived (derivedListener m)"
  by (auto simp: current_derived_def derivedListener_def Let_def strict_equals_def)

lemma derivedListener_voltage [simp]: "voltageProperty (derivedListener m) = voltageProperty m"
  by (simp add: derivedListener_def Let_def)

lemma derivedListener_resistance [simp]: "resistanceProperty (derivedListener m) = resistanceProperty m"
  by (simp add: derivedListener_def Let_def)

lemma voltageProperty_set_derived: "current_derived m \<Longrightarrow> current_derived (voltageProperty_set v m)"
  using derivedListener_derived [of "m\<lparr>voltageProperty := (voltageProperty m)\<lparr>pvalue := v\<rparr>\<rparr>"]
  by (simp add: voltageProperty_set_def Let_def current_derived_def)

lemma resistanceProperty_set_derived: "current_derived m \<Longrightarrow> current_derived (resistanceProperty_set r m)"
  using derivedListener_derived [of "m\<lparr>resistanceProperty := (resistanceProperty m)\<lparr>pvalue := r\<rparr>\<rparr>"]
  by (simp add: resistanceProperty_set_def Let_def current_derived_def)

lemma reset_derived: "current_derived m \<Longrightarrow> current_derived (snd (reset m))"
  by (simp add: reset_def Let_def voltageProperty_reset_def resistanceProperty_reset_def
      voltageProperty_set_derived resistanceProperty_set_derived)

lemma reachable_derived: "reachable c m \<Longrightarrow> current_derived m"
proof (induction rule: reachable.induct)
  case r_new
  show ?case by (simp add: current_derived_def OhmsLawModel_def Let_def)
next
  case (r_voltage m v)
  then show ?case by (simp add: voltageProperty_set_derived)
next
  case (r_resistance m r)
  then show ?case by (simp add: resistanceProperty_set_derived)
next
  case (r_reset m)
  then show ?case by (simp add: reset_derived)
next
  case (r_lazyLink m f)
  then show ?case by (simp add: current_derived_def currentProperty_lazyLink_def)
next
  case (r_link m f)
  then show ?case by (simp add: current_derived_def currentProperty_link_def currentProperty_lazyLink_def)
next
  case (r_lazyLink_voltage m f)
  then show ?case by (simp add: current_derived_def voltageProperty_lazyLink_def)
next
  case (r_lazyLink_resistance m f)
  then show ?case by (simp add: current_derived_def resistanceProperty_lazyLink_def)
qed

lemma voltageProperty_set_simps [simp]:
  "pvalue (voltageProperty (voltageProperty_set v m)) = v"
  "initialValue (voltageProperty (voltageProperty_set v m)) = initialValue (voltageProperty m)"
  "listeners (voltageProperty (voltageProperty_set v m)) = listeners (voltageProperty m)"
  "resistanceProperty (voltageProperty_set v m) = resistanceProperty m"
  "listeners (currentProperty (voltageProperty_set v m)) = listeners (currentProperty m)"
  by (auto simp: voltageProperty_set_def derivedListener_def Let_def strict_equals_def)

lemma resistanceProperty_set_simps [simp]:
  "pvalue (resistanceProperty (resistanceProperty_set r m)) = r"
  "initialValue (resistanceProperty (resistanceProperty_set r m)) = initialValue (resistanceProperty m)"
  "listeners (resistanceProperty (resistanceProperty_set r m)) = listeners (resistanceProperty m)"
  "voltageProperty (resistanceProperty_set r m) = voltageProperty m"
  "listeners (currentProperty (resistanceProperty_set r m)) = listeners (currentProperty m)"
  by (auto simp: resistanceProperty_set_def derivedListener_def Let_def strict_equals_def)

text \<open>The values a property is reset to are the defaults of the configured ranges.\<close>

lemma reachable_initialValue:
  "reachable c m \<Longrightarrow>
     initialValue (voltageProperty m) = Num (getDefaultValue (VOLTAGE_RANGE c)) \<and>
     initialValue (resistanceProperty m) = Num (getDefaultValue (RESISTANCE_RANGE c))"
proof (induction rule: reachable.induct)
  case r_new
  show ?case by (simp add: OhmsLawModel_def Let_def NumberProperty_def)
next
  case (r_reset m)
  then show ?case
    by (simp add: reset_def Let_def voltageProperty_reset_def resistanceProperty_reset_def)
qed (simp_all add: currentProperty_lazyLink_def currentProperty_link_def
       voltageProperty_lazyLink_def resistanceProperty_lazyLink_def)

text \<open>The model of the examples as the constructor leaves it: 4.5 V, 500 ohms, 9 mA.\<close>

lemma example_model:
  "OhmsLawModel example_constants =
     \<lparr>voltageProperty = \<lparr>pvalue = Num (9 / 2), initialValue = Num (9 / 2), listeners = []\<rparr>,
      resistanceProperty = \<lparr>pvalue = Num 500, initialValue = Num 500, listeners = []\<rparr>,
      currentProperty = \<lparr>pvalue = Num 9, initialValue = Num 9, listeners = []\<rparr>,
      calls = []\<rparr>"
  by (simp add: OhmsLawModel_def example_constants_def Let_def NumberProperty_def
      getDefaultValue_def derivation_def)

text \<open>A reset after the voltage went to 2 V: the defaults are back and the call has thrown.\<close>

lemma reset_throws_example:
  "reset (voltageProperty_set (Num 2) (OhmsLawModel example_constants)) =
     (Threw TypeError,
      \<lparr>voltageProperty = \<lparr>pvalue = Num (9 / 2), initialValue = Num (9 / 2), listeners = []\<rparr>,
       resistanceProperty = \<lparr>pvalue = Num 500, initialValue = Num 500, listeners = []\<rparr>,
       currentProperty = \<lparr>pvalue = Num 9, initialValue = Num 9, listeners = []\<rparr>,
       calls = []\<rparr>)"
  by (simp add: example_model reset_def voltageProperty_reset_def resistanceProperty_reset_def
      voltageProperty_set_def resistanceProperty_set_def derivedListener_def Let_def
      derivation_def strict_equals_def emit2_def)

text \<open>
  C1. In every state of the model whose voltage and resistance lie in the configured
  ranges, with a resistance above zero, the current read is 1000 * voltage / resistance.
\<close>

theorem current_is_derived:
  assumes "reachable c m"
    and "getVoltage m = Num v" and "contains (VOLTAGE_RANGE c) v"
    and "getResistance m = Num r" and "contains (RESISTANCE_RANGE c) r"
    and "0 < r"
  shows "getCurrent m = Num (1000 * v / r)"
proof -
  from assms(1) have "current_derived m" by (rule reachable_derived)
  moreover from assms(6) have "r \<noteq> 0" by simp
  ultimately show ?thesis
    using assms(2,4)
    by (simp add: current_derived_def getCurrent_def getVoltage_def getResistance_def derivation_Num)
qed

text \<open>The example of the specification: 9.9 V across 10 ohms is 990 mA.\<close>

theorem current_is_derived_witness:
  "getCurrent (resistanceProperty_set (Num 10)
     (voltageProperty_set (Num (99 / 10)) (OhmsLawModel example_constants))) = Num 990"
proof -
  let ?m = "resistanceProperty_set (Num 10)
              (voltageProperty_set (Num (99 / 10)) (OhmsLawModel example_constants))"
  have r: "reachable example_constants ?m" by (intro reachable.intros)
  have v: "getVoltage ?m = Num (99 / 10)" by (simp add: getVoltage_def)
  have s: "getResistance ?m = Num 10" by (simp add: getResistance_def)
  have cv: "contains (VOLTAGE_RANGE example_constants) (99 / 10)"
    by (simp add: contains_def example_constants_def)
  have cr: "contains (RESISTANCE_RANGE example_constants) 10"
    by (simp add: contains_def example_constants_def)
  have "getCurrent ?m = Num (1000 * (99 / 10) / 10)"
    using current_is_derived [OF r v cv s cr] by simp
  then show ?thesis by simp
qed

text \<open>
  C2. In every state of the model, \<^verbatim>\<open>reset()\<close> leaves the voltage and the resistance at
  the configured defaults and the current at the value derived from them, which is
  1000 * defaultVoltage / defaultResistance when the default resistance is not zero.
  The call does not complete normally: it throws a TypeError at its third statement.
\<close>

theorem reset_restores_defaults_then_throws:
  assumes "reachable c m"
  shows "fst (reset m) = Threw TypeError \<and>
         getVoltage (snd (reset m)) = Num (getDefaultValue (VOLTAGE_RANGE c)) \<and>
         getResistance (snd (reset m)) = Num (getDefaultValue (RESISTANCE_RANGE c)) \<and>
         getCurrent (snd (reset m)) =
           derivation (Num (getDefaultValue (VOLTAGE_RANGE c)))
             (Num (getDefaultValue (RESISTANCE_RANGE c)))"
proof -
  have d: "current_derived (snd (reset m))"
    using assms by (intro reset_derived reachable_derived)
  have v: "getVoltage (snd (reset m)) = Num (getDefaultValue (VOLTAGE_RANGE c))"
    using reachable_initialValue [OF assms]
    by (simp add: reset_def Let_def getVoltage_def voltageProperty_reset_def resistanceProperty_reset_def)
  have r: "getResistance (snd (reset m)) = Num (getDefaultValue (RESISTANCE_RANGE c))"
    using reachable_initialValue [OF assms]
    by (simp add: reset_def Let_def getResistance_def voltageProperty_reset_def resistanceProperty_reset_def)
  have "getCurrent (snd (reset m)) = derivation (getVoltage (snd (reset m))) (getResistance (snd (reset m)))"
    using d by (simp add: current_derived_def getCurrent_def getVoltage_def getResistance_def)
  with v r show ?thesis by (simp add: reset_def Let_def)
qed

theorem reset_restores_defaults_then_throws_witness:
  "fst (reset (voltageProperty_set (Num 2) (OhmsLawModel example_constants))) = Threw TypeError \<and>
   getVoltage (snd (reset (voltageProperty_set (Num 2) (OhmsLawModel example_constants)))) = Num (9 / 2) \<and>
   getResistance (snd (reset (voltageProperty_set (Num 2) (OhmsLawModel example_constants)))) = Num 500 \<and>
   getCurrent (snd (reset (voltageProperty_set (Num 2) (OhmsLawModel example_constants)))) = Num 9"
proof -
  have "reachable example_constants (voltageProperty_set (Num 2) (OhmsLawModel example_constants))"
    by (intro reachable.intros)
  from reset_restores_defaults_then_throws [OF this] show ?thesis
    by (simp add: example_constants_def getDefaultValue_def derivation_def)
qed

text \<open>
  C3, as the code has it. \<^verbatim>\<open>voltageProperty.set\<close> and \<^verbatim>\<open>resistanceProperty.set\<close> have no
  throwing step and store the value they are given, whatever it is: the properties are
  created without a range, and nothing is clamped. With the range from 0.1 to 9.9,
  setting the voltage to -5 leaves the voltage at -5.
\<close>

theorem set_stores_value_unclamped:
  "getVoltage (voltageProperty_set v m) = v \<and> getResistance (resistanceProperty_set r m) = r"
  by (simp add: getVoltage_def getResistance_def)

theorem set_stores_value_unclamped_witness:
  "getVoltage (voltageProperty_set (Num (- 5)) (OhmsLawModel example_constants)) = Num (- 5) \<and>
   getResistance (resistanceProperty_set (Num 5000) (OhmsLawModel example_constants)) = Num 5000"
  using set_stores_value_unclamped [of "Num (- 5)" "OhmsLawModel example_constants" "Num 5000"]
  by simp

text \<open>
  C3, as it is stated, fails: -5 is outside the range from 0.1 to 9.9, and after
  \<^verbatim>\<open>voltageProperty.set( -5 )\<close> the voltage is -5, outside the range, and not 0.1.
\<close>

theorem set_out_of_range_not_clamped:
  "\<not> contains (VOLTAGE_RANGE example_constants) (- 5) \<and>
   rmin (VOLTAGE_RANGE example_constants) = 1 / 10 \<and>
   rmax (VOLTAGE_RANGE example_constants) = 99 / 10 \<and>
   getVoltage (voltageProperty_set (Num (- 5)) (OhmsLawModel example_constants)) = Num (- 5) \<and>
   getVoltage (voltageProperty_set (Num (- 5)) (OhmsLawModel example_constants)) \<noteq> Num (1 / 10)"
  by (simp add: getVoltage_def contains_def example_constants_def)













text \<open>
  C5. Setting the voltage leaves the resistance as it was, and setting the resistance
  leaves the voltage as it was, in every state and for every value.
\<close>

theorem set_independent:
  "getResistance (voltageProperty_set v m) = getResistance m \<and>
   getVoltage (resistanceProperty_set r m) = getVoltage m"
  by (simp add: getVoltage_def getResistance_def)

theorem set_independent_witness:
  "getResistance (voltageProperty_set (Num 2) (OhmsLawModel example_constants)) = Num 500 \<and>
   getVoltage (resistanceProperty_set (Num 20) (OhmsLawModel example_constants)) = Num (9 / 2)"
  using set_independent [of "Num 2" "OhmsLawModel example_constants" "Num 20"]
  by (simp add: example_model getVoltage_def getResistance_def)




text \<open>
  C7. In every state, a second \<^verbatim>\<open>reset()\<close> leaves the voltage, the resistance and the
  current that the first one left. This holds when the two calls are two statements in a
  row (the first throws and the second is never reached: the whole state is that of one
  call), and when the caller catches what the first call throws and calls again; then
  the whole state is the same too, log of calls included, unless a value to reset to is
  NaN, which is never equal to itself and is set and notified again.
\<close>

theorem reset_idempotent:
  "snd (reset_twice m) = snd (reset m) \<and>
   values_of (snd (reset (snd (reset m)))) = values_of (snd (reset m)) \<and>
   (initialValue (voltageProperty m) \<noteq> NaN \<and> initialValue (resistanceProperty m) \<noteq> NaN \<longrightarrow>
      snd (reset (snd (reset m))) = snd (reset m))"
proof (intro conjI impI)
  show "snd (reset_twice m) = snd (reset m)"
    by (simp add: reset_twice_def reset_def Let_def)
  let ?v = "initialValue (voltageProperty m)" and ?r = "initialValue (resistanceProperty m)"
  let ?m1 = "snd (reset m)"
  have v1: "pvalue (voltageProperty ?m1) = ?v" "initialValue (voltageProperty ?m1) = ?v"
    and r1: "pvalue (resistanceProperty ?m1) = ?r" "initialValue (resistanceProperty ?m1) = ?r"
    by (simp_all add: reset_def Let_def voltageProperty_reset_def resistanceProperty_reset_def)
  show "snd (reset ?m1) = ?m1" if "?v \<noteq> NaN \<and> ?r \<noteq> NaN"
    using that v1 r1
    by (simp add: reset_def [of ?m1] Let_def voltageProperty_reset_def resistanceProperty_reset_def
        voltageProperty_set_def resistanceProperty_set_def strict_equals_def)
  show "values_of (snd (reset ?m1)) = values_of ?m1"
  proof (cases "?v \<noteq> NaN \<and> ?r \<noteq> NaN")
    case True
    then have "snd (reset ?m1) = ?m1"
      using v1 r1
      by (simp add: reset_def [of ?m1] Let_def voltageProperty_reset_def resistanceProperty_reset_def
          voltageProperty_set_def resistanceProperty_set_def strict_equals_def)
    then show ?thesis by simp
  next
    case False
    have nan: "derivation ?v ?r = NaN"
      using False by (cases ?v; cases ?r) (auto simp: derivation_def)
    have c1: "pvalue (currentProperty ?m1) = NaN"
      using False nan
      by (auto simp: reset_def Let_def voltageProperty_reset_def resistanceProperty_reset_def
          voltageProperty_set_def resistanceProperty_set_def derivedListener_def strict_equals_def)
    have c2: "pvalue (currentProperty (snd (reset ?m1))) = NaN"
      using False nan v1 r1
      by (auto simp: reset_def [of ?m1] Let_def voltageProperty_reset_def resistanceProperty_reset_def
          voltageProperty_set_def resistanceProperty_set_def derivedListener_def strict_equals_def)
    have "pvalue (voltageProperty (snd (reset ?m1))) = ?v" "pvalue (resistanceProperty (snd (reset ?m1))) = ?r"
      using v1 r1
      by (simp_all add: reset_def [of ?m1] Let_def voltageProperty_reset_def resistanceProperty_reset_def)
    with c1 c2 v1 r1 show ?thesis
      by (simp add: values_of_def getVoltage_def getResistance_def getCurrent_def)
  qed
qed

theorem reset_idempotent_witness:
  "snd (reset_twice (voltageProperty_set (Num 2) (OhmsLawModel example_constants))) =
     OhmsLawModel example_constants \<and>
   values_of (snd (reset (snd (reset (voltageProperty_set (Num 2) (OhmsLawModel example_constants)))))) =
     (Num (9 / 2), Num 500, Num 9) \<and>
   snd (reset (snd (reset (voltageProperty_set (Num 2) (OhmsLawModel example_constants))))) =
     OhmsLawModel example_constants"
proof -
  let ?m = "voltageProperty_set (Num 2) (OhmsLawModel example_constants)"
  have e: "snd (reset ?m) = OhmsLawModel example_constants"
    unfolding reset_throws_example by (simp add: example_model)
  have i: "initialValue (voltageProperty ?m) \<noteq> NaN \<and> initialValue (resistanceProperty ?m) \<noteq> NaN"
    by (simp add: example_model)
  have v: "values_of (OhmsLawModel example_constants) = (Num (9 / 2), Num 500, Num 9)"
    by (simp add: values_of_def example_model getVoltage_def getResistance_def getCurrent_def)
  show ?thesis
    using reset_idempotent [of ?m] e i v by simp
qed

section \<open>Properties of the view\<close>

text \<open>On finite numbers the operations of the language are those of the reals.\<close>

lemma js_sub_Num [simp]: "js_sub (Num a) (Num b) = Num (a - b)"
  by (simp add: js_sub_def)

lemma linear_Num:
  "b1 \<noteq> a1 \<Longrightarrow> linear (Num a1) (Num b1) (Num a2) (Num b2) (Num a3) = Num (linear_map a1 b1 a2 b2 a3)"
  by (simp add: linear_def linear_map_def)

lemma roundSymmetric_Num:
  "roundSymmetric (Num t) = Num (of_int (if t < 0 then - \<lfloor>\<bar>t\<bar> + 1 / 2\<rfloor> else \<lfloor>\<bar>t\<bar> + 1 / 2\<rfloor>))"
  by (simp add: roundSymmetric_def)

lemma maxArrowHeightThreshold_Num [simp]: "maxArrowHeightThreshold c = Num (2 * WIRE_HEIGHT c)"
  by (simp add: maxArrowHeightThreshold_def mult.commute)

lemma lastIndex_Num [simp]: "lastIndex c = Num (real (length (RELATIVE_SIZE_STRINGS c)) - 1)"
  by (simp add: lastIndex_def)

text \<open>The rounding error is below one half, and no error is one of the errors.\<close>

lemma rounding_error_bound: "\<bar>rounding_error e\<bar> < 1 / 2"
  using rounding_error [of e] by simp

lemma rounding_error_Rounding: "\<bar>x\<bar> < 1 / 2 \<Longrightarrow> rounding_error (Rounding x) = x"
  by (simp add: Rounding_inverse)

text \<open>\<^verbatim>\<open>Util.roundSymmetric\<close> gives a whole number nearest to its argument.\<close>

lemma roundSymmetric_nearest:
  "\<exists>k::int. roundSymmetric (Num t) = Num (of_int k) \<and> \<bar>of_int k - t\<bar> \<le> 1 / 2"
proof -
  let ?n = "\<lfloor>\<bar>t\<bar> + 1 / 2\<rfloor>"
  have lo: "of_int ?n \<le> \<bar>t\<bar> + 1 / 2" by (rule of_int_floor_le)
  have hi: "\<bar>t\<bar> + 1 / 2 < of_int ?n + 1" by linarith
  show ?thesis
  proof (cases "t < 0")
    case True
    have "\<bar>- of_int ?n - t\<bar> \<le> 1 / 2" using True lo hi by linarith
    then have "\<bar>of_int (- ?n) - t\<bar> \<le> 1 / 2" by simp
    moreover have "roundSymmetric (Num t) = Num (of_int (- ?n))"
      using True by (simp add: roundSymmetric_Num)
    ultimately show ?thesis by blast
  next
    case False
    have "\<bar>of_int ?n - t\<bar> \<le> 1 / 2" using False lo hi by linarith
    moreover have "roundSymmetric (Num t) = Num (of_int ?n)"
      using False by (simp add: roundSymmetric_Num)
    ultimately show ?thesis by blast
  qed
qed

text \<open>
  Up to the threshold, and when minArrowHeight is not the threshold, the index is the
  rounded value of the linear map of the specification, as the doubles compute it.
\<close>

lemma arrowSizeIndex_mapped:
  assumes "height \<le> 2 * WIRE_HEIGHT c" "minArrowHeight \<noteq> 2 * WIRE_HEIGHT c"
  shows "arrowSizeIndex e c minArrowHeight height =
           roundSymmetric (Num (mapped_height c minArrowHeight height + rounding_error e))"
  using assms by (simp add: arrowSizeIndex_def js_gt_def linear_Num mapped_height_def Let_def)

lemma arrowSizeIndex_high:
  assumes "2 * WIRE_HEIGHT c < height"
  shows "arrowSizeIndex e c minArrowHeight height = Num (real (length (RELATIVE_SIZE_STRINGS c)) - 1)"
  using assms by (simp add: arrowSizeIndex_def js_gt_def Let_def)

text \<open>What the function returns, from the whole number that the index is.\<close>

lemma array_get_int:
  "array_get xs (Num (of_int k)) = (if 0 \<le> k \<and> k < int (length xs) then Some (xs ! nat k) else None)"
  by (auto simp: array_get_def)

lemma description_of_index:
  assumes "arrowSizeIndex e c minArrowHeight height = Num (of_int k)"
  shows "getArrowSizeDescription assertions e c minArrowHeight height =
           (if 0 \<le> k \<and> k < int (length (RELATIVE_SIZE_STRINGS c))
            then Inr (toLowerCase (RELATIVE_SIZE_STRINGS c ! nat k))
            else Inl (if assertions then AssertionError else TypeError))"
  unfolding getArrowSizeDescription_def Let_def assms array_get_int
  by (auto simp: js_ge_def strict_equals_def)

text \<open>Between the ends of the interval the linear map onto [0, b] stays in [0, b].\<close>

lemma linear_map_bounds:
  assumes "lo < hi" "lo \<le> x" "x \<le> hi" "0 \<le> b"
  shows "0 \<le> linear_map lo hi 0 b x \<and> linear_map lo hi 0 b x \<le> b"
proof -
  let ?q = "(x - lo) / (hi - lo)"
  have q0: "0 \<le> ?q" using assms by simp
  have q1: "?q \<le> 1" using assms by simp
  have "0 \<le> b * ?q" using assms(4) q0 by (rule mult_nonneg_nonneg)
  moreover have "b * ?q \<le> b * 1" using q1 assms(4) by (rule mult_left_mono)
  ultimately show ?thesis unfolding linear_map_def by simp
qed

text \<open>
  From minArrowHeight up to the threshold, a whole number nearest to the mapped height,
  as the doubles compute it, is an index of the list.
\<close>

lemma nearest_in_bounds:
  assumes "RELATIVE_SIZE_STRINGS c \<noteq> []" "minArrowHeight \<noteq> 2 * WIRE_HEIGHT c"
    "minArrowHeight \<le> height" "height \<le> 2 * WIRE_HEIGHT c"
    "\<bar>of_int k - (mapped_height c minArrowHeight height + rounding_error e)\<bar> \<le> 1 / 2"
  shows "0 \<le> k \<and> k < int (length (RELATIVE_SIZE_STRINGS c))"
proof -
  let ?n = "length (RELATIVE_SIZE_STRINGS c)"
  let ?t = "mapped_height c minArrowHeight height"
  have n: "0 \<le> real ?n - 1" using assms(1) by (cases "RELATIVE_SIZE_STRINGS c") auto
  have lt: "minArrowHeight < 2 * WIRE_HEIGHT c" using assms(2-4) by linarith
  have b: "0 \<le> ?t \<and> ?t \<le> real ?n - 1"
    unfolding mapped_height_def using lt assms(3,4) n by (intro linear_map_bounds) auto
  from b assms(5) rounding_error_bound [of e]
  have "- 1 < real_of_int k" "real_of_int k < real ?n" by linarith+
  then show ?thesis by linarith
qed

lemma arrowSizeIndex_in_bounds:
  assumes "RELATIVE_SIZE_STRINGS c \<noteq> []" "minArrowHeight \<noteq> 2 * WIRE_HEIGHT c"
    "minArrowHeight \<le> height"
  shows "\<exists>k < length (RELATIVE_SIZE_STRINGS c).
           arrowSizeIndex e c minArrowHeight height = Num (real k) \<and>
           (height \<le> 2 * WIRE_HEIGHT c \<longrightarrow>
              \<bar>real k - (mapped_height c minArrowHeight height + rounding_error e)\<bar> \<le> 1 / 2)"
proof (cases "2 * WIRE_HEIGHT c < height")
  case True
  have "length (RELATIVE_SIZE_STRINGS c) - 1 < length (RELATIVE_SIZE_STRINGS c)"
    using assms(1) by (cases "RELATIVE_SIZE_STRINGS c") auto
  moreover have "arrowSizeIndex e c minArrowHeight height =
      Num (real (length (RELATIVE_SIZE_STRINGS c) - 1))"
    using assms(1) arrowSizeIndex_high [OF True, of e minArrowHeight]
    by (cases "RELATIVE_SIZE_STRINGS c") auto
  ultimately show ?thesis using True by auto
next
  case False
  then have le: "height \<le> 2 * WIRE_HEIGHT c" by simp
  let ?t = "mapped_height c minArrowHeight height + rounding_error e"
  obtain k :: int where k: "roundSymmetric (Num ?t) = Num (of_int k)" "\<bar>of_int k - ?t\<bar> \<le> 1 / 2"
    using roundSymmetric_nearest [of ?t] by blast
  have b: "0 \<le> k \<and> k < int (length (RELATIVE_SIZE_STRINGS c))"
    using assms le k(2) by (intro nearest_in_bounds)
  have "arrowSizeIndex e c minArrowHeight height = Num (real (nat k))"
    using arrowSizeIndex_mapped [OF le assms(2), of e] k(1) b by simp
  moreover have "nat k < length (RELATIVE_SIZE_STRINGS c)" using b by linarith
  moreover have "\<bar>real (nat k) - ?t\<bar> \<le> 1 / 2" using k(2) b by simp
  ultimately show ?thesis by blast
qed

lemma description_in_bounds:
  assumes "arrowSizeIndex e c minArrowHeight height = Num (real k)"
    "k < length (RELATIVE_SIZE_STRINGS c)"
  shows "getArrowSizeDescription assertions e c minArrowHeight height =
           Inr (toLowerCase (RELATIVE_SIZE_STRINGS c ! k))"
  using description_of_index [of e c minArrowHeight height "int k" assertions] assms by simp




lemma example_strings:
  "RELATIVE_SIZE_STRINGS example_constants \<noteq> []"
  "length (RELATIVE_SIZE_STRINGS example_constants) = 7"
  "RELATIVE_SIZE_STRINGS example_constants ! Suc 0 = ''Very small''"
  "last (RELATIVE_SIZE_STRINGS example_constants) = ''Huge''"
  "WIRE_HEIGHT example_constants = 180"
  by (simp_all add: example_constants_def)

lemma toLowerCase_examples:
  "toLowerCase ''Very small'' = ''very small''" "toLowerCase ''Huge'' = ''huge''"
  by (simp_all add: toLowerCase_def char_toLowerCase_def char_of_def bit_Suc_0_iff)




text \<open>
  C9, as the code has it. Let the list of descriptors be non-empty and minArrowHeight
  differ from the threshold. For every arrow height from minArrowHeight up, the index
  computed in \<^verbatim>\<open>getArrowSizeDescription\<close> is a whole number with 0 <= index < N: the
  condition of the assertion holds, the read of the list is in bounds, and with
  assertions enabled the call returns the descriptor at that index.
\<close>

theorem arrow_index_in_bounds:
  assumes "RELATIVE_SIZE_STRINGS c \<noteq> []" "minArrowHeight \<noteq> 2 * WIRE_HEIGHT c"
    "minArrowHeight \<le> height"
  shows "js_ge (arrowSizeIndex e c minArrowHeight height) (Num 0) \<and>
         js_lt (arrowSizeIndex e c minArrowHeight height)
               (Num (real (length (RELATIVE_SIZE_STRINGS c)))) \<and>
         (\<exists>k < length (RELATIVE_SIZE_STRINGS c).
            arrowSizeIndex e c minArrowHeight height = Num (real k) \<and>
            array_get (RELATIVE_SIZE_STRINGS c) (arrowSizeIndex e c minArrowHeight height) =
              Some (RELATIVE_SIZE_STRINGS c ! k) \<and>
            getArrowSizeDescription True e c minArrowHeight height =
              Inr (toLowerCase (RELATIVE_SIZE_STRINGS c ! k)))"
proof -
  obtain k where k: "k < length (RELATIVE_SIZE_STRINGS c)"
      "arrowSizeIndex e c minArrowHeight height = Num (real k)"
    using arrowSizeIndex_in_bounds [OF assms, of e] by blast
  have "array_get (RELATIVE_SIZE_STRINGS c) (Num (real k)) = Some (RELATIVE_SIZE_STRINGS c ! k)"
    using k(1) array_get_int [of "RELATIVE_SIZE_STRINGS c" "int k"] by simp
  with k description_in_bounds [OF k(2,1), of True] show ?thesis
    by (auto simp: js_ge_def strict_equals_def)
qed

theorem arrow_index_in_bounds_witness:
  "js_ge (arrowSizeIndex (Rounding 0) example_constants 20 400) (Num 0) \<and>
   js_lt (arrowSizeIndex (Rounding 0) example_constants 20 400) (Num 7) \<and>
   arrowSizeIndex (Rounding 0) example_constants 20 400 = Num 6 \<and>
   getArrowSizeDescription True (Rounding 0) example_constants 20 400 = Inr ''huge''"
proof -
  have 1: "RELATIVE_SIZE_STRINGS example_constants \<noteq> []" by (simp add: example_strings)
  have 2: "(20::real) \<noteq> 2 * WIRE_HEIGHT example_constants" by (simp add: example_strings)
  have 3: "(20::real) \<le> 400" by simp
  have i: "arrowSizeIndex (Rounding 0) example_constants 20 400 = Num 6"
    using arrowSizeIndex_high [of example_constants 400 "Rounding 0" 20]
    by (simp add: example_strings)
  from arrow_index_in_bounds [OF 1 2 3, of "Rounding 0"] obtain k where
      "Num 6 = Num (real k)"
      "getArrowSizeDescription True (Rounding 0) example_constants 20 400 =
         Inr (toLowerCase (RELATIVE_SIZE_STRINGS example_constants ! k))"
    unfolding i by blast
  then have "getArrowSizeDescription True (Rounding 0) example_constants 20 400 =
      Inr (toLowerCase (RELATIVE_SIZE_STRINGS example_constants ! 6))"
    by simp
  moreover have "toLowerCase (RELATIVE_SIZE_STRINGS example_constants ! 6) = ''huge''"
    by (simp add: example_constants_def toLowerCase_examples)
  ultimately show ?thesis
    using arrow_index_in_bounds [OF 1 2 3, of "Rounding 0"] unfolding i
    by (simp add: example_strings)
qed

text \<open>
  C9, as it is stated, fails. When minArrowHeight is the threshold itself, 360 here, the
  linear map divides by zero: at the height 360 the index is NaN, the condition of the
  assertion is false and the call throws. And when the list of descriptors is empty, no
  index is in bounds: above the threshold the index is -1.
\<close>

theorem arrow_index_out_of_bounds:
  "(360::real) \<le> 360 \<and>
   arrowSizeIndex (Rounding 0) example_constants 360 360 = NaN \<and>
   \<not> js_ge (arrowSizeIndex (Rounding 0) example_constants 360 360) (Num 0) \<and>
   getArrowSizeDescription True (Rounding 0) example_constants 360 360 = Inl AssertionError \<and>
   arrowSizeIndex (Rounding 0) (example_constants\<lparr>RELATIVE_SIZE_STRINGS := []\<rparr>) 20 400 = Num (- 1) \<and>
   \<not> js_ge (arrowSizeIndex (Rounding 0) (example_constants\<lparr>RELATIVE_SIZE_STRINGS := []\<rparr>) 20 400) (Num 0)"
  by (simp add: getArrowSizeDescription_def arrowSizeIndex_def example_constants_def linear_def
      roundSymmetric_def js_gt_def js_ge_def strict_equals_def array_get_def)

text \<open>
  At a half the rounding error of the doubles decides. From the least height 172 the
  height 219 maps to 3/2 exactly: with no error the index is 2, and with the error of the
  doubles, which compute 1.4999999999999998, the index is 1.
\<close>

lemma arrow_index_at_a_half:
  "mapped_height example_constants 172 219 = 3 / 2 \<and>
   arrowSizeIndex (Rounding 0) example_constants 172 219 = Num 2 \<and>
   arrowSizeIndex (Rounding (- (1 / 2 ^ 52))) example_constants 172 219 = Num 1 \<and>
   getArrowSizeDescription True (Rounding (- (1 / 2 ^ 52))) example_constants 172 219 =
     Inr ''very small''"
proof -
  have z: "rounding_error (Rounding 0) = 0" by (simp add: rounding_error_Rounding)
  have e: "rounding_error (Rounding (- (1 / 2 ^ 52))) = - (1 / 2 ^ 52)"
    by (rule rounding_error_Rounding) simp
  have m: "mapped_height example_constants 172 219 = 3 / 2"
    by (simp add: mapped_height_def linear_map_def example_constants_def)
  have le: "(219::real) \<le> 2 * WIRE_HEIGHT example_constants" "(172::real) \<noteq> 2 * WIRE_HEIGHT example_constants"
    by (simp_all add: example_strings)
  have a: "arrowSizeIndex (Rounding 0) example_constants 172 219 = Num 2"
    unfolding arrowSizeIndex_mapped [OF le] m z by (simp add: roundSymmetric_Num)
  have "\<lfloor>(3 / 2 - 1 / 2 ^ 52) + 1 / 2 :: real\<rfloor> = 1"
    by (rule floor_unique) simp_all
  then have b: "arrowSizeIndex (Rounding (- (1 / 2 ^ 52))) example_constants 172 219 = Num 1"
    unfolding arrowSizeIndex_mapped [OF le] m e by (simp add: roundSymmetric_Num)
  have "getArrowSizeDescription True (Rounding (- (1 / 2 ^ 52))) example_constants 172 219 =
      Inr (toLowerCase (RELATIVE_SIZE_STRINGS example_constants ! 1))"
    using description_in_bounds [of "Rounding (- (1 / 2 ^ 52))" example_constants 172 219 1 True] b
    by (simp add: example_strings)
  with m a b show ?thesis by (simp add: example_strings toLowerCase_examples)
qed

subsection \<open>The dots of the resistor\<close>

text \<open>The square root of \<^verbatim>\<open>AREA_PER_DOT\<close> lies between 6.3 and 6.4; the grid has whole numbers of
  rows and columns, and the two loops end.\<close>

lemma sqrt_40_bounds: "63 / 10 < sqrt 40 \<and> sqrt 40 < 64 / 10"
proof
  show "63 / 10 < sqrt 40" by (rule real_less_rsqrt) (simp add: power2_eq_square)
  show "sqrt 40 < 64 / 10" by (rule real_less_lsqrt) (simp_all add: power2_eq_square)
qed

lemma DOT_GRID_Num:
  "\<exists>k. DOT_GRID_ROWS c = Num (of_int k)" "\<exists>k. DOT_GRID_COLUMNS c = Num (of_int k)"
  using sqrt_40_bounds
  by (auto simp: DOT_GRID_ROWS_def DOT_GRID_COLUMNS_def RESISTOR_HEIGHT_def RESISTOR_WIDTH_def
      AREA_PER_DOT_def roundSymmetric_Num)

lemma MAX_DOTS_Num: "\<exists>M. MAX_DOTS c = Num M"
  using DOT_GRID_Num [of c] by (auto simp: MAX_DOTS_def)

lemma length_grid: "length (concat (map (\<lambda>i. map (f i) js) is)) = length is * length js"
  by (induction "is") simp_all

lemma createDots_Some: "\<exists>ds. createDots c = Some ds"
  using DOT_GRID_Num [of c] by (auto simp: createDots_def loop_from_1_def)

text \<open>With a wire of 232 by 180 the grid has 17 columns and 10 rows: \<^verbatim>\<open>MAX_DOTS\<close> is 170, and
  the loops, which start at 1, create 16 * 9 dots.\<close>

lemma example_rows: "DOT_GRID_ROWS example_constants = Num 10"
proof -
  let ?t = "180 / (275 / 100) / sqrt 40 :: real"
  have p: "0 < sqrt 40" by simp
  have "\<lfloor>?t + 1 / 2\<rfloor> = 10"
  proof (rule floor_unique)
    have "19 / 2 * sqrt 40 \<le> 180 / (275 / 100)" using sqrt_40_bounds by simp
    then have "19 / 2 \<le> ?t" using p by (simp only: pos_le_divide_eq)
    then show "of_int 10 \<le> ?t + 1 / 2" by simp
    have "180 / (275 / 100) < 21 / 2 * sqrt 40" using sqrt_40_bounds by simp
    then have "?t < 21 / 2" using p by (simp only: pos_divide_less_eq)
    then show "?t + 1 / 2 < of_int 10 + 1" by simp
  qed
  moreover have "0 \<le> ?t" by simp
  ultimately show ?thesis
    by (simp add: DOT_GRID_ROWS_def RESISTOR_HEIGHT_def AREA_PER_DOT_def roundSymmetric_Num
        example_constants_def)
qed

lemma example_columns: "DOT_GRID_COLUMNS example_constants = Num 17"
proof -
  let ?t = "232 / (2123 / 1000) / sqrt 40 :: real"
  have p: "0 < sqrt 40" by simp
  have "\<lfloor>?t + 1 / 2\<rfloor> = 17"
  proof (rule floor_unique)
    have "33 / 2 * sqrt 40 \<le> 232 / (2123 / 1000)" using sqrt_40_bounds by simp
    then have "33 / 2 \<le> ?t" using p by (simp only: pos_le_divide_eq)
    then show "of_int 17 \<le> ?t + 1 / 2" by simp
    have "232 / (2123 / 1000) < 35 / 2 * sqrt 40" using sqrt_40_bounds by simp
    then have "?t < 35 / 2" using p by (simp only: pos_divide_less_eq)
    then show "?t + 1 / 2 < of_int 17 + 1" by simp
  qed
  moreover have "0 \<le> ?t" by simp
  ultimately show ?thesis
    by (simp add: DOT_GRID_COLUMNS_def RESISTOR_WIDTH_def AREA_PER_DOT_def roundSymmetric_Num
        example_constants_def)
qed

lemma example_MAX_DOTS: "MAX_DOTS example_constants = Num 170"
  by (simp add: MAX_DOTS_def example_rows example_columns)

lemma example_createDots:
  "createDots example_constants = Some (concat (map (\<lambda>i. map (\<lambda>j. (i, j)) [1 ..< 10]) [1 ..< 17]))"
  by (simp add: createDots_def loop_from_1_def example_rows example_columns)

text \<open>\<^verbatim>\<open>RESISTANCE_TO_NUM_DOTS\<close> is the clamped linear map of the specification, and the dots
  shown are those whose index is below its value.\<close>

lemma clamp_Num:
  "lo \<le> hi \<Longrightarrow> clamp (Num v) (Num lo) (Num hi) = Num (max lo (min hi v))"
  by (auto simp: clamp_def js_gt_def)

lemma Math_min_max_Num [simp]:
  "Math_min (Num a) (Num b) = Num (min a b)" "Math_max (Num a) (Num b) = Num (max a b)"
  by (auto simp: Math_min_def Math_max_def)

lemma RESISTANCE_TO_NUM_DOTS_Num:
  assumes "rmin (RESISTANCE_RANGE c) \<noteq> rmax (RESISTANCE_RANGE c)" "MAX_DOTS c = Num M"
  shows "RESISTANCE_TO_NUM_DOTS c (Num r) =
           Num (clamped_linear_map (rmin (RESISTANCE_RANGE c)) (rmax (RESISTANCE_RANGE c))
                  (M * (5 / 100)) M r)"
proof -
  have "min (M * (5 / 100)) M \<le> max (M * (5 / 100)) M" by simp
  then show ?thesis
    using assms
    by (simp add: RESISTANCE_TO_NUM_DOTS_def LinearFunction_def Let_def linear_Num clamp_Num
        clamped_linear_map_def del: min_less_iff_conj max_less_iff_conj)
qed

lemma count_below: "length (filter (\<lambda>i. real i < v) [0 ..< n]) = min n (nat \<lceil>v\<rceil>)"
proof (induction n)
  case 0
  show ?case by simp
next
  case (Suc n)
  have "(real n < v) = (n < nat \<lceil>v\<rceil>)" by linarith
  with Suc show ?case by (simp add: min_def)
qed

lemma numVisibleDots_eq:
  assumes "rmin (RESISTANCE_RANGE c) \<noteq> rmax (RESISTANCE_RANGE c)" "MAX_DOTS c = Num M"
    "createDots c = Some ds"
  shows "numVisibleDots c r =
           Some (min (length ds)
                  (nat \<lceil>clamped_linear_map (rmin (RESISTANCE_RANGE c)) (rmax (RESISTANCE_RANGE c))
                          (M * (5 / 100)) M r\<rceil>))"
  using assms(3) count_below
  by (simp add: numVisibleDots_def dotsVisible_def RESISTANCE_TO_NUM_DOTS_Num [OF assms(1,2)]
      filter_map comp_def)

lemma linear_map_mono:
  assumes "lo < hi" "a \<le> b" "x \<le> y"
  shows "linear_map lo hi a b x \<le> linear_map lo hi a b y"
proof -
  have "(x - lo) / (hi - lo) \<le> (y - lo) / (hi - lo)"
    using assms(1,3) by (simp add: divide_right_mono)
  then have "(b - a) * ((x - lo) / (hi - lo)) \<le> (b - a) * ((y - lo) / (hi - lo))"
    using assms(2) by (intro mult_left_mono) auto
  then show ?thesis by (simp add: linear_map_def)
qed

lemma shown_mono:
  assumes "lo < hi" "x \<le> y"
  shows "nat \<lceil>clamped_linear_map lo hi (M * (5 / 100)) M x\<rceil> \<le>
         nat \<lceil>clamped_linear_map lo hi (M * (5 / 100)) M y\<rceil>"
proof (cases "0 \<le> M")
  case True
  then have "M * (5 / 100) \<le> M" by simp
  from linear_map_mono [OF assms(1) this assms(2)]
  have "clamped_linear_map lo hi (M * (5 / 100)) M x \<le> clamped_linear_map lo hi (M * (5 / 100)) M y"
    unfolding clamped_linear_map_def by (intro max.mono min.mono) auto
  then show ?thesis by (intro nat_mono ceiling_mono)
next
  case False
  then have "max (M * (5 / 100)) M < 0" by simp
  moreover have "clamped_linear_map lo hi (M * (5 / 100)) M x \<le> max (M * (5 / 100)) M"
    unfolding clamped_linear_map_def by simp
  ultimately have "clamped_linear_map lo hi (M * (5 / 100)) M x < 0" by linarith
  then have "\<lceil>clamped_linear_map lo hi (M * (5 / 100)) M x\<rceil> \<le> 0" by (simp add: ceiling_le_zero less_imp_le)
  then show ?thesis by simp
qed

lemma example_shown_min:
  "clamped_linear_map 10 1000 (170 * (5 / 100)) 170 10 = 17 / 2"
  by (simp add: clamped_linear_map_def linear_map_def)

lemma example_shown_max:
  "clamped_linear_map 10 1000 (170 * (5 / 100)) 170 1000 = 170"
  by (simp add: clamped_linear_map_def linear_map_def)

lemma example_numVisibleDots:
  "numVisibleDots example_constants r =
     Some (min 144 (nat \<lceil>clamped_linear_map 10 1000 (170 * (5 / 100)) 170 r\<rceil>))"
proof -
  have ne: "rmin (RESISTANCE_RANGE example_constants) \<noteq> rmax (RESISTANCE_RANGE example_constants)"
    by (simp add: example_constants_def)
  from numVisibleDots_eq [OF ne example_MAX_DOTS example_createDots, of r] show ?thesis
    by (simp add: length_grid example_constants_def)
qed

text \<open>
  C10, as the code has it. Let the resistance range have its minimum below its maximum.
  For every resistance in the range, the dot at an index is visible exactly when the index
  is below the clamped linear map of the resistance from [range min, range max] onto
  [5% of \<^verbatim>\<open>MAX_DOTS\<close>, \<^verbatim>\<open>MAX_DOTS\<close>]; the number of visible dots is that value rounded up
  to a whole number, as long as this is not more than the number of dots created; and
  the number of visible dots is nondecreasing in the resistance.
\<close>

theorem visible_dots:
  assumes "rmin (RESISTANCE_RANGE c) < rmax (RESISTANCE_RANGE c)"
    and "contains (RESISTANCE_RANGE c) r"
    and "MAX_DOTS c = Num M"
    and "createDots c = Some ds"
  shows "dotsVisible c r =
           Some (map (\<lambda>index. real index <
                       clamped_linear_map (rmin (RESISTANCE_RANGE c)) (rmax (RESISTANCE_RANGE c))
                         (M * (5 / 100)) M r) [0 ..< length ds]) \<and>
         (\<lceil>clamped_linear_map (rmin (RESISTANCE_RANGE c)) (rmax (RESISTANCE_RANGE c))
              (M * (5 / 100)) M r\<rceil> \<le> int (length ds) \<longrightarrow>
          numVisibleDots c r =
            Some (nat \<lceil>clamped_linear_map (rmin (RESISTANCE_RANGE c)) (rmax (RESISTANCE_RANGE c))
                          (M * (5 / 100)) M r\<rceil>)) \<and>
         (contains (RESISTANCE_RANGE c) r' \<and> r \<le> r' \<longrightarrow>
          (\<exists>a b. numVisibleDots c r = Some a \<and> numVisibleDots c r' = Some b \<and> a \<le> b))"
proof -
  let ?v = "clamped_linear_map (rmin (RESISTANCE_RANGE c)) (rmax (RESISTANCE_RANGE c)) (M * (5 / 100)) M"
  have ne: "rmin (RESISTANCE_RANGE c) \<noteq> rmax (RESISTANCE_RANGE c)" using assms(1) by simp
  have n: "numVisibleDots c x = Some (min (length ds) (nat \<lceil>?v x\<rceil>))" for x
    by (rule numVisibleDots_eq [OF ne assms(3,4)])
  have 1: "dotsVisible c r = Some (map (\<lambda>index. real index < ?v r) [0 ..< length ds])"
    using assms(4) by (simp add: dotsVisible_def RESISTANCE_TO_NUM_DOTS_Num [OF ne assms(3)])
  have 2: "\<lceil>?v r\<rceil> \<le> int (length ds) \<longrightarrow> numVisibleDots c r = Some (nat \<lceil>?v r\<rceil>)"
    unfolding n by auto
  have 3: "contains (RESISTANCE_RANGE c) r' \<and> r \<le> r' \<longrightarrow>
           (\<exists>a b. numVisibleDots c r = Some a \<and> numVisibleDots c r' = Some b \<and> a \<le> b)"
  proof
    assume "contains (RESISTANCE_RANGE c) r' \<and> r \<le> r'"
    then have "nat \<lceil>?v r\<rceil> \<le> nat \<lceil>?v r'\<rceil>" using assms(1) by (intro shown_mono) auto
    then have "min (length ds) (nat \<lceil>?v r\<rceil>) \<le> min (length ds) (nat \<lceil>?v r'\<rceil>)"
      by (simp add: min.coboundedI2)
    then show "\<exists>a b. numVisibleDots c r = Some a \<and> numVisibleDots c r' = Some b \<and> a \<le> b"
      unfolding n by simp
  qed
  from 1 2 3 show ?thesis by blast
qed

theorem visible_dots_witness:
  "dotsVisible example_constants 10 = Some (map (\<lambda>index. real index < 17 / 2) [0 ..< 144]) \<and>
   numVisibleDots example_constants 10 = Some 9 \<and>
   (\<exists>a b. numVisibleDots example_constants 10 = Some a \<and>
          numVisibleDots example_constants 1000 = Some b \<and> a \<le> b)"
proof -
  have lt: "rmin (RESISTANCE_RANGE example_constants) < rmax (RESISTANCE_RANGE example_constants)"
    by (simp add: example_constants_def)
  have c10: "contains (RESISTANCE_RANGE example_constants) 10"
    by (simp add: contains_def example_constants_def)
  have c1000: "contains (RESISTANCE_RANGE example_constants) 1000 \<and> (10::real) \<le> 1000"
    by (simp add: contains_def example_constants_def)
  have rr: "rmin (RESISTANCE_RANGE example_constants) = 10" "rmax (RESISTANCE_RANGE example_constants) = 1000"
    by (simp_all add: example_constants_def)
  from visible_dots [OF lt c10 example_MAX_DOTS example_createDots, of 1000] c1000
  show ?thesis
    unfolding rr example_shown_min by (auto simp: length_grid)
qed

text \<open>
  C10, as it is stated, fails: the count of visible dots is a whole number and the map is
  not. At 10 ohms, the least resistance of the examples, the map gives 8.5 and 9 dots
  are visible.
\<close>

theorem visible_dots_not_the_map:
  "contains (RESISTANCE_RANGE example_constants) 10 \<and>
   RESISTANCE_TO_NUM_DOTS example_constants (Num 10) = Num (17 / 2) \<and>
   numVisibleDots example_constants 10 = Some 9 \<and>
   Num (real 9) \<noteq> Num (17 / 2)"
proof -
  have ne: "rmin (RESISTANCE_RANGE example_constants) \<noteq> rmax (RESISTANCE_RANGE example_constants)"
    by (simp add: example_constants_def)
  have "RESISTANCE_TO_NUM_DOTS example_constants (Num 10) = Num (17 / 2)"
    using RESISTANCE_TO_NUM_DOTS_Num [OF ne example_MAX_DOTS, of 10] example_shown_min
    by (simp add: example_constants_def)
  moreover have "numVisibleDots example_constants 10 = Some 9"
    unfolding example_numVisibleDots example_shown_min by simp
  ultimately show ?thesis by (simp add: contains_def example_constants_def)
qed

text \<open>
  The dots created are fewer than \<^verbatim>\<open>MAX_DOTS\<close>, since both loops start at 1: at 1000 ohms
  the map gives 170 and the 144 dots there are are all visible.
\<close>

lemma dots_saturate_example:
  "RESISTANCE_TO_NUM_DOTS example_constants (Num 1000) = Num 170 \<and>
   numVisibleDots example_constants 1000 = Some 144"
proof -
  have ne: "rmin (RESISTANCE_RANGE example_constants) \<noteq> rmax (RESISTANCE_RANGE example_constants)"
    by (simp add: example_constants_def)
  have "RESISTANCE_TO_NUM_DOTS example_constants (Num 1000) = Num 170"
    using RESISTANCE_TO_NUM_DOTS_Num [OF ne example_MAX_DOTS, of 1000] example_shown_max
    by (simp add: example_constants_def)
  moreover have "numVisibleDots example_constants 1000 = Some 144"
    unfolding example_numVisibleDots example_shown_max by simp
  ultimately show ?thesis by simp
qed

end
